theory Spec2Isabelle
  imports Complex_Main "HOL-Library.Monad_Syntax"
begin

section \<open>JavaScript values\<close>

text \<open>
  A JavaScript number is NaN, an infinity or a finite value. Finite values are kept as
  exact rationals: every comparison of the program is against a literal that a double
  holds exactly (4, 2, 0.5 and their negatives), and every keyword step adds or removes
  0.5, which is exact as well. The one addition of the base score and the adjustment is
  taken without the rounding of the double format, and the sign of zero is not kept.
\<close>

datatype jsnum = NaN | NegInf | Fin rat | PosInf

text \<open>\<open>x > t\<close> for a finite literal \<open>t\<close>: false on NaN.\<close>

fun js_gt :: "jsnum \<Rightarrow> rat \<Rightarrow> bool" where
  "js_gt NaN t = False"
| "js_gt NegInf t = False"
| "js_gt (Fin a) t = (a > t)"
| "js_gt PosInf t = True"

text \<open>\<open>x <= y\<close> on numbers: false as soon as one side is NaN.\<close>

fun js_le :: "jsnum \<Rightarrow> jsnum \<Rightarrow> bool" where
  "js_le NaN y = False"
| "js_le x NaN = False"
| "js_le NegInf y = True"
| "js_le (Fin a) NegInf = False"
| "js_le (Fin a) (Fin b) = (a \<le> b)"
| "js_le (Fin a) PosInf = True"
| "js_le PosInf PosInf = True"
| "js_le PosInf y = False"

fun js_neg :: "jsnum \<Rightarrow> jsnum" where
  "js_neg NaN = NaN"
| "js_neg NegInf = PosInf"
| "js_neg (Fin a) = Fin (- a)"
| "js_neg PosInf = NegInf"

fun js_add :: "jsnum \<Rightarrow> jsnum \<Rightarrow> jsnum" where
  "js_add NaN y = NaN"
| "js_add x NaN = NaN"
| "js_add PosInf NegInf = NaN"
| "js_add NegInf PosInf = NaN"
| "js_add PosInf y = PosInf"
| "js_add x PosInf = PosInf"
| "js_add NegInf y = NegInf"
| "js_add x NegInf = NegInf"
| "js_add (Fin a) (Fin b) = Fin (a + b)"

definition js_sub :: "jsnum \<Rightarrow> jsnum \<Rightarrow> jsnum" where
  "js_sub x y = js_add x (js_neg y)"

text \<open>\<open>x / y\<close>: zero by zero is NaN, any other finite value by zero is an infinity.\<close>

fun js_div :: "jsnum \<Rightarrow> jsnum \<Rightarrow> jsnum" where
  "js_div NaN y = NaN"
| "js_div x NaN = NaN"
| "js_div (Fin a) (Fin b) =
    (if b = 0 then (if a = 0 then NaN else if 0 < a then PosInf else NegInf)
     else Fin (a / b))"
| "js_div (Fin a) y = Fin 0"
| "js_div PosInf (Fin b) = (if b < 0 then NegInf else PosInf)"
| "js_div NegInf (Fin b) = (if b < 0 then PosInf else NegInf)"
| "js_div x y = NaN"

text \<open>
  The values a parsed JSON body or a variable of the handlers can hold. A string is kept
  as the bytes of its UTF-8 encoding, one 8-bit character of HOL for each byte: an ASCII
  character is one byte, U+00A0 is the two bytes C2 A0, an emoji is four bytes. The
  keywords, labels and messages of the program are ASCII, and two strings are equal exactly
  when their encodings are.
\<close>

datatype jsval =
    Undefined
  | Null
  | Bool bool
  | Num jsnum
  | Str string
  | Arr "jsval list"
  | Obj "(string \<times> jsval) list"

text \<open>What \<open>!v\<close>, \<open>v || w\<close> and \<open>if (v)\<close> test.\<close>

fun truthy :: "jsval \<Rightarrow> bool" where
  "truthy Undefined = False"
| "truthy Null = False"
| "truthy (Bool b) = b"
| "truthy (Num n) = (n \<noteq> NaN \<and> n \<noteq> Fin 0)"
| "truthy (Str s) = (s \<noteq> [])"
| "truthy (Arr xs) = True"
| "truthy (Obj kvs) = True"

text \<open>\<open>v || w\<close>.\<close>

definition js_or :: "jsval \<Rightarrow> jsval \<Rightarrow> jsval" where
  "js_or v w = (if truthy v then v else w)"

text \<open>The one exception that the modelled code itself raises.\<close>

datatype error = TypeError

section \<open>The sentiment scorer\<close>

text \<open>
  \<open>tokenizer\<close> and \<open>analyzer\<close> are objects of the \<open>natural\<close> package and
  \<open>toLowerCase\<close> is the runtime's; none of them is part of the repository, so the scorer
  takes them as parameters.
\<close>

record collaborators =
  toLowerCase :: "string \<Rightarrow> string"
  tokenize :: "string \<Rightarrow> string list"
  getSentiment :: "string list \<Rightarrow> jsnum"

record analysis =
  score :: jsnum
  mood :: string

definition determineMood :: "jsnum \<Rightarrow> string" where
  "determineMood s =
    (if js_gt s 4 then ''Ecstatic''
     else if js_gt s 2 then ''Happy''
     else if js_gt s (1/2) then ''Content''
     else if js_gt s (- (1/2)) then ''Neutral''
     else if js_gt s (- 2) then ''Sad''
     else if js_gt s (- 4) then ''Depressed''
     else ''Very Depressed'')"

definition positive :: "string list" where
  "positive = [''happy'', ''joy'', ''excited'', ''wonderful'', ''love'', ''great'', ''amazing'']"

definition negative :: "string list" where
  "negative = [''sad'', ''depressed'', ''anxious'', ''worried'', ''stressed'', ''angry'', ''upset'']"

text \<open>The body of the \<open>forEach\<close> callback: both tests run for every token.\<close>

definition adjustToken :: "string \<Rightarrow> jsnum \<Rightarrow> jsnum" where
  "adjustToken token adjustment =
    (let a = (if token \<in> set positive then js_add adjustment (Fin (1/2)) else adjustment)
     in if token \<in> set negative then js_sub a (Fin (1/2)) else a)"

text \<open>\<open>let adjustment = 0; tokens.forEach(...)\<close>.\<close>

definition keywordAdjustment :: "string list \<Rightarrow> jsnum" where
  "keywordAdjustment tokens = fold adjustToken tokens (Fin 0)"

definition tokensOf :: "collaborators \<Rightarrow> string \<Rightarrow> string list" where
  "tokensOf env text = tokenize env (toLowerCase env text)"

text \<open>
  \<open>analyzeSentiment\<close> takes whatever value the caller passes. \<open>text.toLowerCase()\<close>
  raises a TypeError on every value that is not a string.
\<close>

fun analyzeSentiment :: "collaborators \<Rightarrow> jsval \<Rightarrow> error + analysis" where
  "analyzeSentiment env (Str text) =
    (let tokens = tokenize env (toLowerCase env text);
         base = getSentiment env tokens;
         adjustment = keywordAdjustment tokens;
         finalScore = js_add base adjustment
     in Inr \<lparr>score = finalScore, mood = determineMood finalScore\<rparr>)"
| "analyzeSentiment env v = Inl TypeError"

subsection \<open>Vocabulary of the specification\<close>

text \<open>The seven labels from the lowest to the highest.\<close>

definition moodOrder :: "string list" where
  "moodOrder = [''Very Depressed'', ''Depressed'', ''Sad'', ''Neutral'', ''Content'',
                ''Happy'', ''Ecstatic'']"

definition moodRank :: "string \<Rightarrow> nat" where
  "moodRank m = length (takeWhile (\<lambda>x. x \<noteq> m) moodOrder)"

text \<open>
  The threshold table as the specification prints it: rows of a strict lower bound and a
  label, read from the top, the first row whose bound the score exceeds giving the label,
  and the last label when no row applies.
\<close>

definition moodThresholds :: "(rat \<times> string) list" where
  "moodThresholds =
    [(4, ''Ecstatic''), (2, ''Happy''), (1/2, ''Content''), (- (1/2), ''Neutral''),
     (- 2, ''Sad''), (- 4, ''Depressed'')]"

fun firstMatch :: "(rat \<times> string) list \<Rightarrow> jsnum \<Rightarrow> string" where
  "firstMatch [] s = ''Very Depressed''"
| "firstMatch ((t, m) # rows) s = (if js_gt s t then m else firstMatch rows s)"

definition moodBySpecTable :: "jsnum \<Rightarrow> string" where
  "moodBySpecTable s = firstMatch moodThresholds s"

text \<open>The number of occurrences in \<open>tokens\<close> of members of a keyword set.\<close>

definition occurrences :: "string list \<Rightarrow> string list \<Rightarrow> nat" where
  "occurrences keywords tokens = length (filter (\<lambda>t. t \<in> set keywords) tokens)"

section \<open>Stand-ins for the collaborators\<close>

text \<open>
  Modelled from the spec: the base scorer is the \<open>SentimentAnalyzer\<close> of the
  \<open>natural\<close> package, which is not among the repository's files. Section 4.1, step 2,
  speaks of a polarity lexicon (word to polarity value) ``summed/averaged'' over the
  tokens, unrecognized tokens adding zero. \<open>lexiconScore\<close> is the reading as a sum.
\<close>

definition polarity :: "(string \<rightharpoonup> rat) \<Rightarrow> string \<Rightarrow> rat" where
  "polarity lexicon token = (case lexicon token of None \<Rightarrow> 0 | Some v \<Rightarrow> v)"

definition lexiconScore :: "(string \<rightharpoonup> rat) \<Rightarrow> string list \<Rightarrow> jsnum" where
  "lexiconScore lexicon tokens = Fin (sum_list (map (polarity lexicon) tokens))"

text \<open>
  Modelled from the spec: the same step in its reading as an average, which is what the
  analyzer that line 112 constructs computes: the polarities of the tokens are summed,
  starting from 0, and the sum is divided by the number of tokens, \<open>score / words.length\<close>.
  On no tokens this is 0 / 0.
\<close>

definition meanScore :: "(string \<rightharpoonup> rat) \<Rightarrow> string list \<Rightarrow> jsnum" where
  "meanScore lexicon tokens =
    js_div (Fin (sum_list (map (polarity lexicon) tokens))) (Fin (of_nat (length tokens)))"

text \<open>
  Modelled from the spec: the tokenizer is the \<open>WordTokenizer\<close> of the same package.
  Section 4.1, step 1: lower case, then word tokens delimited by white space and
  punctuation. This instance works on ASCII letters and digits; it serves as the concrete
  collaborator at which hypotheses about the collaborators are discharged.
\<close>

definition isWordChar :: "char \<Rightarrow> bool" where
  "isWordChar c =
    (let n = (of_char c :: nat)
     in (48 \<le> n \<and> n \<le> 57) \<or> (65 \<le> n \<and> n \<le> 90) \<or> (97 \<le> n \<and> n \<le> 122))"

definition asciiLower :: "char \<Rightarrow> char" where
  "asciiLower c =
    (let n = (of_char c :: nat) in if 65 \<le> n \<and> n \<le> 90 then char_of (n + 32) else c)"

fun wordTokens :: "string \<Rightarrow> string \<Rightarrow> string list" where
  "wordTokens word [] = (if word = [] then [] else [word])"
| "wordTokens word (c # cs) =
    (if isWordChar c then wordTokens (word @ [c]) cs
     else (if word = [] then [] else [word]) @ wordTokens [] cs)"

definition sampleLexicon :: "string \<rightharpoonup> rat" where
  "sampleLexicon = map_of [(''love'', 3), (''happy'', 3), (''good'', 3), (''sad'', - 2),
                           (''bad'', - 3)]"

definition sampleCollaborators :: collaborators where
  "sampleCollaborators =
    \<lparr>toLowerCase = map asciiLower, tokenize = wordTokens [],
     getSentiment = lexiconScore sampleLexicon\<rparr>"



section \<open>The journal collection\<close>

text \<open>
  \<open>JournalEntrySchema\<close>: the stored fields of an entry. Dates are milliseconds, as
  \<open>Date.now()\<close> returns them; the \<open>_id\<close> of an entry is its key in the collection,
  and \<open>findById\<close> is the lookup of a key. The route parameter is taken to be an id of
  the right form: the exception that the library raises on any other string is not told
  apart from an absent entry.
\<close>

record tags =
  emotions :: "string list"
  people :: "string list"
  activities :: "string list"

record journal_entry =
  e_user :: string
  e_title :: string
  e_content :: string
  e_sentimentScore :: jsnum
  e_mood :: string
  e_tags :: tags
  e_createdAt :: nat
  e_updatedAt :: nat

type_synonym collection = "string \<rightharpoonup> journal_entry"

text \<open>\<open>const { title, content, sentimentScore, mood, tags } = req.body\<close>: a field the
  body does not have is \<open>Undefined\<close>.\<close>

record journal_body =
  b_title :: jsval
  b_content :: jsval
  b_sentimentScore :: jsval
  b_mood :: jsval
  b_tags :: jsval

datatype payload =
    Message string
  | Analysis analysis
  | Entry journal_entry

datatype response = Response nat payload

fun status :: "response \<Rightarrow> nat" where
  "status (Response code p) = code"

text \<open>
  \<open>String.prototype.trim\<close> removes the white space and the line terminators of the
  language from both ends. In UTF-8 these are the single bytes 09 to 0D and 20; the two
  bytes C2 A0 (U+00A0); and the three-byte sequences E1 9A 80 (U+1680), E2 80 80 to
  E2 80 8A (U+2000 to U+200A), E2 80 A8 and A9 (U+2028, U+2029), E2 80 AF (U+202F),
  E2 81 9F (U+205F), E3 80 80 (U+3000) and EF BB BF (U+FEFF).
\<close>

definition space1 :: "nat \<Rightarrow> bool" where
  "space1 a = (a \<in> set [9, 10, 11, 12, 13, 32])"

definition space2 :: "nat \<Rightarrow> nat \<Rightarrow> bool" where
  "space2 a b = (a = 194 \<and> b = 160)"

definition space3 :: "nat \<Rightarrow> nat \<Rightarrow> nat \<Rightarrow> bool" where
  "space3 a b c =
    ((a = 225 \<and> b = 154 \<and> c = 128) \<or>
     (a = 226 \<and> b = 128 \<and> ((128 \<le> c \<and> c \<le> 138) \<or> c = 168 \<or> c = 169 \<or> c = 175)) \<or>
     (a = 226 \<and> b = 129 \<and> c = 159) \<or>
     (a = 227 \<and> b = 128 \<and> c = 128) \<or>
     (a = 239 \<and> b = 187 \<and> c = 191))"

text \<open>The bytes \<open>a b\<close> (or \<open>a b c\<close>) at the head of a string, read forwards, or, in a
  reversed string, backwards.\<close>

definition isSpace2 :: "bool \<Rightarrow> char \<Rightarrow> char \<Rightarrow> bool" where
  "isSpace2 back a b =
    (if back then space2 (of_char b) (of_char a) else space2 (of_char a) (of_char b))"

definition isSpace3 :: "bool \<Rightarrow> char \<Rightarrow> char \<Rightarrow> char \<Rightarrow> bool" where
  "isSpace3 back a b c =
    (if back then space3 (of_char c) (of_char b) (of_char a)
     else space3 (of_char a) (of_char b) (of_char c))"

fun dropSpaces :: "bool \<Rightarrow> string \<Rightarrow> string" where
  "dropSpaces back (a # b # c # s) =
    (if space1 (of_char a) then dropSpaces back (b # c # s)
     else if isSpace2 back a b then dropSpaces back (c # s)
     else if isSpace3 back a b c then dropSpaces back s
     else a # b # c # s)"
| "dropSpaces back [a, b] =
    (if space1 (of_char a) then dropSpaces back [b]
     else if isSpace2 back a b then []
     else [a, b])"
| "dropSpaces back [a] = (if space1 (of_char a) then [] else [a])"
| "dropSpaces back [] = []"

definition trim :: "string \<Rightarrow> string" where
  "trim s = rev (dropSpaces True (rev (dropSpaces False s)))"

text \<open>
  Reading one of the properties \<open>emotions\<close>, \<open>people\<close>, \<open>activities\<close> of a value that
  is neither \<open>null\<close> nor \<open>undefined\<close>: only an object can have it, and of a key that
  a JSON text repeats the last value stands.
\<close>

fun getProp :: "jsval \<Rightarrow> string \<Rightarrow> jsval" where
  "getProp (Obj kvs) k = (case map_of (rev kvs) k of None \<Rightarrow> Undefined | Some v \<Rightarrow> v)"
| "getProp v k = Undefined"

text \<open>\<open>v?.k\<close>.\<close>

fun optChain :: "jsval \<Rightarrow> string \<Rightarrow> jsval" where
  "optChain Undefined k = Undefined"
| "optChain Null k = Undefined"
| "optChain v k = getProp v k"

text \<open>
  The schema gives every path a type, and the persistence library, which is not among the
  repository's files, casts a value that is set to a path to that type: it converts some
  values of other types (a numeric string set to a Number path, a number set to a String
  path) and rejects others. The casts are parameters of the routes: the value a String
  path, a Number path and a path of type \<open>[String]\<close> hold after a value was set to them,
  or \<open>None\<close> when the save rejects the document on account of the value (a cast error, or
  \<open>null\<close> on a \<open>required\<close> path).
\<close>

record casts =
  castString :: "jsval \<Rightarrow> string option"
  castNumber :: "jsval \<Rightarrow> jsnum option"
  castStrings :: "jsval \<Rightarrow> string list option"

text \<open>The string, the number and the list of strings that a value is, if it is one.\<close>

fun asString :: "jsval \<Rightarrow> string option" where
  "asString (Str s) = Some s"
| "asString v = None"

fun asNumber :: "jsval \<Rightarrow> jsnum option" where
  "asNumber (Num n) = Some n"
| "asNumber v = None"

fun asStrings :: "jsval \<Rightarrow> string list option" where
  "asStrings (Arr xs) = those (map asString xs)"
| "asStrings v = None"

text \<open>
  The casts at values that already have the type of their path, where they change
  nothing. This instance converts no value of another type; it stands for the library at
  the concrete inputs below, all of whose values have the types of their paths.
\<close>

definition typedCasts :: casts where
  "typedCasts = \<lparr>castString = asString, castNumber = asNumber, castStrings = asStrings\<rparr>"

text \<open>\<open>required: true\<close> on the String paths: an empty string does not pass. (A Number
  path holds a number by its type here; a \<open>null\<close> set to it is rejected by the cast.)\<close>

definition validate :: "journal_entry \<Rightarrow> bool" where
  "validate e = (e_title e \<noteq> [] \<and> e_content e \<noteq> [] \<and> e_mood e \<noteq> [])"

text \<open>
  \<open>doc.save()\<close>: the \<open>pre('save')\<close> hook of the schema sets \<open>updatedAt\<close> to the clock,
  and a document that fails validation is not written (\<open>save\<close> rejects).
\<close>

definition save :: "nat \<Rightarrow> string \<Rightarrow> journal_entry \<Rightarrow> collection \<Rightarrow>
    (journal_entry \<times> collection) option" where
  "save now eid doc db =
    (let doc' = doc\<lparr>e_updatedAt := now\<rparr>
     in if validate doc' then Some (doc', db(eid \<mapsto> doc')) else None)"

section \<open>The routes\<close>

text \<open>
  Each handler is modelled after the \<open>auth\<close> middleware (not among the repository's
  files) has let the request through and has set \<open>req.user.id\<close>, here \<open>uid\<close>. A handler
  returns the response and the collection it leaves.
\<close>

text \<open>
  \<open>router.post('/analyze')\<close>, with the scorer it calls as an argument. The handler has no
  \<open>try\<close>: an exception of the scorer leaves the handler.
\<close>

definition analyze_route :: "(jsval \<Rightarrow> error + analysis) \<Rightarrow> jsval \<Rightarrow> error + response" where
  "analyze_route scorer text =
    (if \<not> truthy text then Inr (Response 400 (Message ''Text is required''))
     else (case scorer text of
             Inl e \<Rightarrow> Inl e
           | Inr result \<Rightarrow> Inr (Response 200 (Analysis result))))"

definition post_analyze :: "collaborators \<Rightarrow> jsval \<Rightarrow> error + response" where
  "post_analyze env text = analyze_route (analyzeSentiment env) text"

text \<open>\<open>new JournalEntry({...})\<close> in \<open>router.post('/')\<close>; \<open>created\<close> is the clock that
  the default of \<open>createdAt\<close> reads.\<close>

definition newJournalEntry :: "casts \<Rightarrow> nat \<Rightarrow> string \<Rightarrow> journal_body \<Rightarrow>
    journal_entry option" where
  "newJournalEntry lib created uid body =
    do {
      t \<leftarrow> castString lib (b_title body);
      c \<leftarrow> castString lib (b_content body);
      s \<leftarrow> castNumber lib (js_or (b_sentimentScore body) (Num (Fin 0)));
      m \<leftarrow> castString lib (js_or (b_mood body) (Str ''Neutral''));
      es \<leftarrow> castStrings lib (js_or (optChain (b_tags body) ''emotions'') (Arr []));
      ps \<leftarrow> castStrings lib (js_or (optChain (b_tags body) ''people'') (Arr []));
      as \<leftarrow> castStrings lib (js_or (optChain (b_tags body) ''activities'') (Arr []));
      Some \<lparr>e_user = uid, e_title = trim t, e_content = c, e_sentimentScore = s,
            e_mood = m, e_tags = \<lparr>emotions = es, people = ps, activities = as\<rparr>,
            e_createdAt = created, e_updatedAt = created\<rparr>
    }"

text \<open>\<open>router.post('/')\<close>; \<open>newId\<close> is the \<open>_id\<close> the new document is given.\<close>

definition post_journal :: "casts \<Rightarrow> nat \<Rightarrow> nat \<Rightarrow> string \<Rightarrow> string \<Rightarrow> journal_body \<Rightarrow>
    collection \<Rightarrow> response \<times> collection" where
  "post_journal lib created now newId uid body db =
    (if \<not> truthy (b_title body) \<or> \<not> truthy (b_content body)
     then (Response 400 (Message ''Title and content are required''), db)
     else (case newJournalEntry lib created uid body of
             None \<Rightarrow> (Response 500 (Message ''Server error''), db)
           | Some newEntry \<Rightarrow>
               (case save now newId newEntry db of
                  None \<Rightarrow> (Response 500 (Message ''Server error''), db)
                | Some (entry, db') \<Rightarrow> (Response 201 (Entry entry), db'))))"

text \<open>\<open>router.get('/:id')\<close>.\<close>

definition get_journal :: "string \<Rightarrow> string \<Rightarrow> collection \<Rightarrow> response \<times> collection" where
  "get_journal uid eid db =
    (case db eid of
       None \<Rightarrow> (Response 404 (Message ''Entry not found''), db)
     | Some entry \<Rightarrow>
         if e_user entry \<noteq> uid then (Response 403 (Message ''Not authorized''), db)
         else (Response 200 (Entry entry), db))"

text \<open>The assignments of \<open>router.put('/:id')\<close> to the document it found.\<close>

definition assignTags :: "casts \<Rightarrow> jsval \<Rightarrow> tags \<Rightarrow> tags option" where
  "assignTags lib tgs old =
    (if truthy tgs then
       do {
         es \<leftarrow> castStrings lib
                (js_or (getProp tgs ''emotions'') (Arr (map Str (emotions old))));
         ps \<leftarrow> castStrings lib
                (js_or (getProp tgs ''people'') (Arr (map Str (people old))));
         as \<leftarrow> castStrings lib
                (js_or (getProp tgs ''activities'') (Arr (map Str (activities old))));
         Some \<lparr>emotions = es, people = ps, activities = as\<rparr>
       }
     else Some old)"

definition assignFields :: "casts \<Rightarrow> journal_body \<Rightarrow> journal_entry \<Rightarrow> journal_entry option" where
  "assignFields lib body entry =
    do {
      t \<leftarrow> castString lib (js_or (b_title body) (Str (e_title entry)));
      c \<leftarrow> castString lib (js_or (b_content body) (Str (e_content entry)));
      s \<leftarrow> castNumber lib (if b_sentimentScore body \<noteq> Undefined then b_sentimentScore body
                            else Num (e_sentimentScore entry));
      m \<leftarrow> castString lib (js_or (b_mood body) (Str (e_mood entry)));
      g \<leftarrow> assignTags lib (b_tags body) (e_tags entry);
      Some (entry\<lparr>e_title := trim t, e_content := c, e_sentimentScore := s, e_mood := m,
                  e_tags := g\<rparr>)
    }"

text \<open>\<open>router.put('/:id')\<close>.\<close>

definition put_journal :: "casts \<Rightarrow> nat \<Rightarrow> string \<Rightarrow> string \<Rightarrow> journal_body \<Rightarrow> collection \<Rightarrow>
    response \<times> collection" where
  "put_journal lib now uid eid body db =
    (case db eid of
       None \<Rightarrow> (Response 404 (Message ''Entry not found''), db)
     | Some entry \<Rightarrow>
         if e_user entry \<noteq> uid then (Response 403 (Message ''Not authorized''), db)
         else (case assignFields lib body entry of
                 None \<Rightarrow> (Response 500 (Message ''Server error''), db)
               | Some changed \<Rightarrow>
                   (case save now eid changed db of
                      None \<Rightarrow> (Response 500 (Message ''Server error''), db)
                    | Some (saved, db') \<Rightarrow> (Response 200 (Entry saved), db'))))"

text \<open>\<open>router.delete('/:id')\<close>.\<close>

definition delete_journal :: "string \<Rightarrow> string \<Rightarrow> collection \<Rightarrow> response \<times> collection" where
  "delete_journal uid eid db =
    (case db eid of
       None \<Rightarrow> (Response 404 (Message ''Entry not found''), db)
     | Some entry \<Rightarrow>
         if e_user entry \<noteq> uid then (Response 403 (Message ''Not authorized''), db)
         else (Response 200 (Message ''Entry removed''), db(eid := None)))"

section \<open>The entry page of the client\<close>

text \<open>
  \<open>JournalEntry.tsx\<close>: the state of the component that \<open>handleSubmit\<close> reads.
  \<open>sentimentScore\<close> and \<open>mood\<close> are \<open>null\<close> until an analysis has been stored;
  \<open>st_id\<close> is the route parameter \<open>id\<close>.
\<close>

record form_data =
  f_title :: string
  f_content :: string
  f_tags :: tags

record page =
  formData :: form_data
  st_sentimentScore :: jsval
  st_mood :: jsval
  st_error :: string
  st_id :: "string option"

text \<open>A value after \<open>JSON.stringify\<close> and \<open>JSON.parse\<close>: a number that is not finite
  arrives as \<open>null\<close>.\<close>

fun viaJSON :: "jsval \<Rightarrow> jsval" where
  "viaJSON (Num (Fin a)) = Num (Fin a)"
| "viaJSON (Num n) = Null"
| "viaJSON v = v"

text \<open>
  \<open>const journalData = { ...formData, sentimentScore, mood }\<close>: \<open>sentimentScore\<close> and
  \<open>mood\<close> are the constants that the render which created this \<open>handleSubmit\<close> bound;
  a call of \<open>setSentimentScore\<close> or \<open>setMood\<close> does not change them.
\<close>

definition journalData :: "page \<Rightarrow> journal_body" where
  "journalData p =
    \<lparr>b_title = Str (f_title (formData p)),
     b_content = Str (f_content (formData p)),
     b_sentimentScore = viaJSON (st_sentimentScore p),
     b_mood = viaJSON (st_mood p),
     b_tags = Obj [(''emotions'', Arr (map Str (emotions (f_tags (formData p))))),
                   (''people'', Arr (map Str (people (f_tags (formData p))))),
                   (''activities'', Arr (map Str (activities (f_tags (formData p)))))]\<rparr>"

text \<open>\<open>err.response?.data?.message || 'Failed to save journal entry'\<close>.\<close>

fun errorMessage :: "response \<Rightarrow> string" where
  "errorMessage (Response code (Message m)) =
    (if m = [] then ''Failed to save journal entry'' else m)"
| "errorMessage r = ''Failed to save journal entry''"

text \<open>
  The request ``one last time'' to \<open>/api/journal/analyze\<close> and the two state setters
  after it. The result is the state of the next render, or the message that the
  \<open>catch\<close> block sets when axios rejects (a status outside 2xx).
\<close>

definition analyzeLast :: "collaborators \<Rightarrow> page \<Rightarrow> string + page" where
  "analyzeLast env p =
    (case post_analyze env (Str (f_content (formData p))) of
       Inl e \<Rightarrow> Inl ''Failed to save journal entry''
     | Inr (Response code (Analysis a)) \<Rightarrow>
         if 200 \<le> code \<and> code < 300
         then Inr (p\<lparr>st_sentimentScore := viaJSON (Num (score a)), st_mood := Str (mood a)\<rparr>)
         else Inl ''Failed to save journal entry''
     | Inr r \<Rightarrow> Inl (errorMessage r))"

text \<open>\<open>handleSubmit\<close>: the state it leaves and the collection the server is left with.\<close>

definition handleSubmit :: "casts \<Rightarrow> collaborators \<Rightarrow> nat \<Rightarrow> nat \<Rightarrow> string \<Rightarrow> string \<Rightarrow> page \<Rightarrow>
    collection \<Rightarrow> page \<times> collection" where
  "handleSubmit lib env created now newId uid p db =
    (if trim (f_title (formData p)) = [] \<or> trim (f_content (formData p)) = []
     then (p\<lparr>st_error := ''Title and content are required''\<rparr>, db)
     else
       (case (if \<not> truthy (st_sentimentScore p) then analyzeLast env (p\<lparr>st_error := []\<rparr>)
              else Inr (p\<lparr>st_error := []\<rparr>)) of
          Inl msg \<Rightarrow> (p\<lparr>st_error := msg\<rparr>, db)
        | Inr p' \<Rightarrow>
            (case (case st_id p of
                     None \<Rightarrow> post_journal lib created now newId uid (journalData p) db
                   | Some i \<Rightarrow>
                       if i = [] then post_journal lib created now newId uid (journalData p) db
                       else put_journal lib now uid i (journalData p) db) of
               (res, db') \<Rightarrow>
                 if 200 \<le> status res \<and> status res < 300 then (p', db')
                 else (p'\<lparr>st_error := errorMessage res\<rparr>, db'))))"

section \<open>Vocabulary and inputs of the statements on the routes\<close>

text \<open>
  An entry as the schema stores it: the required strings are there, the title is trimmed,
  and setting one of its own values to its path again leaves the value as it is.
\<close>

definition storedBySchema :: "casts \<Rightarrow> journal_entry \<Rightarrow> bool" where
  "storedBySchema lib e =
    (validate e \<and> trim (e_title e) = e_title e \<and>
     castString lib (Str (e_title e)) = Some (e_title e) \<and>
     castString lib (Str (e_content e)) = Some (e_content e) \<and>
     castNumber lib (Num (e_sentimentScore e)) = Some (e_sentimentScore e) \<and>
     castString lib (Str (e_mood e)) = Some (e_mood e) \<and>
     castStrings lib (Arr (map Str (emotions (e_tags e)))) = Some (emotions (e_tags e)) \<and>
     castStrings lib (Arr (map Str (people (e_tags e)))) = Some (people (e_tags e)) \<and>
     castStrings lib (Arr (map Str (activities (e_tags e)))) = Some (activities (e_tags e)))"

text \<open>
  The bodies of \<open>PUT\<close> that the save accepts: every value the handler takes from the body
  is cast by the schema, and a title, content or mood taken from the body is not empty
  after the cast (the title after trimming).
\<close>

definition tagSaveable :: "casts \<Rightarrow> jsval \<Rightarrow> string \<Rightarrow> bool" where
  "tagSaveable lib tgs k =
    (\<not> truthy (getProp tgs k) \<or> castStrings lib (getProp tgs k) \<noteq> None)"

definition saveable :: "casts \<Rightarrow> journal_body \<Rightarrow> bool" where
  "saveable lib body =
    ((\<not> truthy (b_title body) \<or>
        (case castString lib (b_title body) of None \<Rightarrow> False | Some s \<Rightarrow> trim s \<noteq> [])) \<and>
     (\<not> truthy (b_content body) \<or>
        (case castString lib (b_content body) of None \<Rightarrow> False | Some s \<Rightarrow> s \<noteq> [])) \<and>
     (b_sentimentScore body = Undefined \<or> castNumber lib (b_sentimentScore body) \<noteq> None) \<and>
     (\<not> truthy (b_mood body) \<or>
        (case castString lib (b_mood body) of None \<Rightarrow> False | Some s \<Rightarrow> s \<noteq> [])) \<and>
     (\<not> truthy (b_tags body) \<or>
        (tagSaveable lib (b_tags body) ''emotions'' \<and> tagSaveable lib (b_tags body) ''people'' \<and>
         tagSaveable lib (b_tags body) ''activities'')))"

text \<open>Concrete inputs at which the statements below are evaluated.\<close>

definition sampleEntry :: journal_entry where
  "sampleEntry =
    \<lparr>e_user = ''u1'', e_title = ''Day'', e_content = ''I love it'',
     e_sentimentScore = Fin (7/2), e_mood = ''Happy'',
     e_tags = \<lparr>emotions = [''joy''], people = [], activities = []\<rparr>,
     e_createdAt = 1000, e_updatedAt = 1000\<rparr>"

definition emptyBody :: journal_body where
  "emptyBody =
    \<lparr>b_title = Undefined, b_content = Undefined, b_sentimentScore = Undefined,
     b_mood = Undefined, b_tags = Undefined\<rparr>"

definition zeroScoreBody :: journal_body where
  "zeroScoreBody =
    \<lparr>b_title = Str [], b_content = Undefined, b_sentimentScore = Num (Fin 0),
     b_mood = Null, b_tags = Obj [(''people'', Arr [Str ''Ann''])]\<rparr>"

text \<open>A body with a blank title and the score 0.\<close>

definition blankTitleBody :: journal_body where
  "blankTitleBody =
    \<lparr>b_title = Str ''   '', b_content = Undefined, b_sentimentScore = Num (Fin 0),
     b_mood = Undefined, b_tags = Undefined\<rparr>"

text \<open>The page of a new entry whose content is too short for the debounced analysis
  (ten characters or fewer), so that no analysis has been stored when it is submitted.\<close>

definition samplePage :: page where
  "samplePage =
    \<lparr>formData = \<lparr>f_title = ''Day'', f_content = ''I love it'',
                  f_tags = \<lparr>emotions = [], people = [], activities = []\<rparr>\<rparr>,
     st_sentimentScore = Null, st_mood = Null, st_error = [], st_id = None\<rparr>"

section \<open>The scorer with the state of the module\<close>

text \<open>
  \<open>tokenizer\<close> and \<open>analyzer\<close> are objects that the module creates once (lines 111 and
  112) and that every call of \<open>analyzeSentiment\<close> uses. A method of an object can read and
  write what the object holds, the lexicon among it. Here the two methods take the state
  \<open>'m\<close> of the two objects and return it next to their result, and \<open>analyzeSentiment\<close>
  passes it on: \<open>emotionalKeywords\<close> and \<open>adjustment\<close> are created anew in every call
  and are no part of it.
\<close>

record 'm library =
  lib_toLowerCase :: "string \<Rightarrow> string"
  lib_tokenize :: "string \<Rightarrow> 'm \<Rightarrow> string list \<times> 'm"
  lib_getSentiment :: "string list \<Rightarrow> 'm \<Rightarrow> jsnum \<times> 'm"

fun analyzeSentiment_st :: "'m library \<Rightarrow> jsval \<Rightarrow> 'm \<Rightarrow> (error + analysis) \<times> 'm" where
  "analyzeSentiment_st lib (Str text) m =
    (case lib_tokenize lib (lib_toLowerCase lib text) m of
       (tokens, m1) \<Rightarrow>
         (case lib_getSentiment lib tokens m1 of
            (base, m2) \<Rightarrow>
              (let adjustment = keywordAdjustment tokens;
                   finalScore = js_add base adjustment
               in (Inr \<lparr>score = finalScore, mood = determineMood finalScore\<rparr>, m2))))"
| "analyzeSentiment_st lib v m = (Inl TypeError, m)"


text \<open>A library whose analyzer counts its calls in the state and adds the count to the
  score it returns: its calls do not leave the state as it was.\<close>

definition countingLibrary :: "nat library" where
  "countingLibrary =
    \<lparr>lib_toLowerCase = map asciiLower,
     lib_tokenize = (\<lambda>s m. (wordTokens [] s, m)),
     lib_getSentiment = (\<lambda>ts m. (js_add (meanScore sampleLexicon ts) (Fin (of_nat m)), Suc m))\<rparr>"

section \<open>Properties of the scorer\<close>

subsection \<open>Auxiliary facts\<close>

lemma determineMood_table: "determineMood s = moodBySpecTable s"
  by (simp add: determineMood_def moodBySpecTable_def moodThresholds_def)

lemma determineMood_label: "determineMood s \<in> set moodOrder"
  by (simp add: determineMood_def moodOrder_def)

lemma js_add_zero: "js_add x (Fin 0) = x"
  by (cases x) simp_all

lemma adjustToken_Fin:
  "adjustToken t (Fin a) =
     Fin (a + (if t \<in> set positive then 1/2 else 0) - (if t \<in> set negative then 1/2 else 0))"
  by (simp add: adjustToken_def js_sub_def Let_def)

text \<open>The loop, started from any finite value of the accumulator.\<close>

lemma fold_adjustToken:
  "fold adjustToken tokens (Fin a) =
     Fin (a + of_nat (occurrences positive tokens) / 2 - of_nat (occurrences negative tokens) / 2)"
proof (induction tokens arbitrary: a)
  case Nil
  show ?case by (simp add: occurrences_def)
next
  case (Cons t ts)
  show ?case
    by (simp add: adjustToken_Fin Cons.IH occurrences_def add_divide_distrib)
qed

lemma keywordAdjustment_closed:
  "keywordAdjustment tokens =
     Fin (of_nat (occurrences positive tokens) / 2 - of_nat (occurrences negative tokens) / 2)"
  by (simp add: keywordAdjustment_def fold_adjustToken)

lemma analyzeSentiment_Str:
  "analyzeSentiment env (Str text) =
     Inr \<lparr>score = js_add (getSentiment env (tokensOf env text))
                         (keywordAdjustment (tokensOf env text)),
          mood = determineMood (js_add (getSentiment env (tokensOf env text))
                                       (keywordAdjustment (tokensOf env text)))\<rparr>"
  by (simp add: tokensOf_def Let_def)


lemma moodRank_determineMood:
  "moodRank (determineMood s) =
    (if js_gt s 4 then 6 else if js_gt s 2 then 5 else if js_gt s (1/2) then 4
     else if js_gt s (- (1/2)) then 3 else if js_gt s (- 2) then 2
     else if js_gt s (- 4) then 1 else 0)"
  by (simp add: determineMood_def moodRank_def moodOrder_def)

lemma js_gt_mono: "js_le s1 s2 \<Longrightarrow> js_gt s1 t \<Longrightarrow> js_gt s2 t"
  by (cases s1; cases s2) simp_all


lemma sample_base_empty: "getSentiment sampleCollaborators [] = Fin 0"
  by (simp add: sampleCollaborators_def lexiconScore_def)

lemma sample_love: "analyzeSentiment sampleCollaborators (Str ''I love it'') =
    Inr \<lparr>score = Fin (7/2), mood = ''Happy''\<rparr>"
  by code_simp

lemma sample_happy: "analyzeSentiment sampleCollaborators (Str ''Happy!'') =
    Inr \<lparr>score = Fin (7/2), mood = ''Happy''\<rparr>"
  by code_simp

subsection \<open>Score to mood\<close>

text \<open>
  C1. For every input text, the mood of the analysis is one of the seven labels and is
  the label that the threshold table of the specification, read top-down with strict
  comparisons and first match, gives to the score of the analysis. A score of exactly 2
  maps to Content and a score of exactly 4 maps to Happy.
\<close>

theorem analyze_mood_by_table:
  "(\<exists>r. analyzeSentiment env (Str text) = Inr r \<and> mood r \<in> set moodOrder \<and>
        mood r = moodBySpecTable (score r)) \<and>
   determineMood (Fin 2) = ''Content'' \<and> determineMood (Fin 4) = ''Happy''"
proof -
  have "determineMood (Fin 2) = ''Content''" "determineMood (Fin 4) = ''Happy''"
    by (simp_all add: determineMood_def)
  then show ?thesis
    by (simp add: analyzeSentiment_Str determineMood_label determineMood_table [symmetric]
             del: analyzeSentiment.simps)
qed

text \<open>
  C8. The mapping from score to mood is monotone: when \<open>s1 <= s2\<close>, the label of
  \<open>s1\<close> is not above the label of \<open>s2\<close> in the order Very Depressed, Depressed, Sad,
  Neutral, Content, Happy, Ecstatic.
\<close>

theorem determineMood_monotone:
  "js_le s1 s2 \<Longrightarrow> moodRank (determineMood s1) \<le> moodRank (determineMood s2)"
proof -
  assume le: "js_le s1 s2"
  note m = js_gt_mono [OF le]
  show ?thesis
    unfolding moodRank_determineMood
    using m [of 4] m [of 2] m [of "1/2"] m [of "- (1/2)"] m [of "- 2"] m [of "- 4"]
    by (simp split: if_splits)
qed

theorem determineMood_monotone_witness:
  "js_le (Fin 2) (Fin (5/2)) \<and> moodRank (determineMood (Fin 2)) = 4 \<and>
   moodRank (determineMood (Fin (5/2))) = 5 \<and>
   moodRank (determineMood (Fin 2)) \<le> moodRank (determineMood (Fin (5/2)))"
proof -
  have h: "js_le (Fin 2) (Fin (5/2))" by simp
  show ?thesis using h determineMood_monotone [OF h] by (simp add: moodRank_determineMood)
qed

subsection \<open>The keyword adjustment\<close>

text \<open>
  C2. The keyword adjustment of a token sequence is 0.5 times the number of occurrences of
  positive keywords minus 0.5 times the number of occurrences of negative keywords, each
  occurrence counting. The score of the analysis is the base score of the tokens plus this
  adjustment, nothing else being applied to it. With exactly one positive and one negative
  occurrence the adjustment is zero and the sum is the base score.
\<close>

theorem keyword_adjustment_counts:
  "keywordAdjustment tokens =
     Fin (of_nat (occurrences positive tokens) / 2 - of_nat (occurrences negative tokens) / 2) \<and>
   (\<exists>r. analyzeSentiment env (Str text) = Inr r \<and>
        score r = js_add (getSentiment env (tokensOf env text))
                         (keywordAdjustment (tokensOf env text))) \<and>
   (occurrences positive tokens = 1 \<and> occurrences negative tokens = 1 \<longrightarrow>
      keywordAdjustment tokens = Fin 0 \<and> js_add base (keywordAdjustment tokens) = base)"
  by (simp add: analyzeSentiment_Str keywordAdjustment_closed js_add_zero
           del: analyzeSentiment.simps)

theorem keyword_adjustment_counts_witness:
  "occurrences positive [''so'', ''happy'', ''and'', ''sad''] = 1 \<and>
   occurrences negative [''so'', ''happy'', ''and'', ''sad''] = 1 \<and>
   keywordAdjustment [''so'', ''happy'', ''and'', ''sad''] = Fin 0 \<and>
   js_add (Fin 3) (keywordAdjustment [''so'', ''happy'', ''and'', ''sad'']) = Fin 3 \<and>
   keywordAdjustment [''great'', ''great''] = Fin 1"
proof -
  have p: "occurrences positive [''so'', ''happy'', ''and'', ''sad''] = 1"
    by (simp add: occurrences_def positive_def)
  have n: "occurrences negative [''so'', ''happy'', ''and'', ''sad''] = 1"
    by (simp add: occurrences_def negative_def)
  have g: "keywordAdjustment [''great'', ''great''] = Fin 1"
    using keyword_adjustment_counts [of "[''great'', ''great'']" sampleCollaborators "[]" "Fin 0"]
    by (simp add: occurrences_def positive_def negative_def)
  show ?thesis
    using p n g
      keyword_adjustment_counts [of "[''so'', ''happy'', ''and'', ''sad'']"
        sampleCollaborators "[]" "Fin 3"]
    by simp
qed

subsection \<open>The empty text\<close>




text \<open>With a base score of 0 for no tokens the analysis of the empty text would be 0 and
  Neutral.\<close>

lemma empty_text_zero_base:
  assumes "tokensOf env [] = []" and "getSentiment env [] = Fin 0"
  shows "analyzeSentiment env (Str []) = Inr \<lparr>score = Fin 0, mood = ''Neutral''\<rparr>"
  using assms
  by (simp add: analyzeSentiment_Str keywordAdjustment_def determineMood_def
           del: analyzeSentiment.simps)




subsection \<open>Unknown tokens\<close>







subsection \<open>Determinism\<close>



text \<open>
  The proviso of C5 is needed: with an analyzer that changes its state, two calls with the
  same text differ.
\<close>

lemma counting_differs:
  "fst (analyzeSentiment_st countingLibrary (Str ''happy'') 0) =
     Inr \<lparr>score = Fin (7/2), mood = ''Happy''\<rparr> \<and>
   fst (analyzeSentiment_st countingLibrary (Str ''happy'')
          (snd (analyzeSentiment_st countingLibrary (Str ''happy'') 0))) =
     Inr \<lparr>score = Fin (9/2), mood = ''Ecstatic''\<rparr>"
  by code_simp



section \<open>Properties of the routes\<close>

subsection \<open>The analysis route\<close>

text \<open>Every falsy \<open>text\<close> of a body (also \<open>null\<close>, \<open>0\<close>, \<open>false\<close>) is answered
  with 400, whatever the scorer; a truthy \<open>text\<close> that is not a string makes the scorer
  raise, and the handler with it.\<close>

lemma post_analyze_falsy:
  "\<not> truthy text \<Longrightarrow> analyze_route scorer text = Inr (Response 400 (Message ''Text is required''))"
  by (simp add: analyze_route_def)

lemma post_analyze_not_string:
  "truthy text \<Longrightarrow> asString text = None \<Longrightarrow> post_analyze env text = Inl TypeError"
  by (cases "text") (simp_all add: post_analyze_def analyze_route_def)

lemma post_analyze_Str:
  "s \<noteq> [] \<Longrightarrow> post_analyze env (Str s) =
     Inr (Response 200 (Analysis \<lparr>score = js_add (getSentiment env (tokensOf env s))
                         (keywordAdjustment (tokensOf env s)),
          mood = determineMood (js_add (getSentiment env (tokensOf env s))
                                       (keywordAdjustment (tokensOf env s)))\<rparr>))"
  by (simp add: post_analyze_def analyze_route_def analyzeSentiment_Str del: analyzeSentiment.simps)

text \<open>
  C4. For a body whose \<open>text\<close> is missing or a string: the analysis route answers 400
  with the message ``Text is required'' exactly when \<open>text\<close> is missing or the empty
  string; for every other text it answers 200 with the analysis that the scorer returns
  for that text; and on a missing or empty text the answer is the same whatever the scorer
  would do, so the scorer is not called.
\<close>

theorem post_analyze_text_required:
  assumes "text = Undefined \<or> asString text \<noteq> None"
  shows "(post_analyze env text = Inr (Response 400 (Message ''Text is required'')) \<longleftrightarrow>
            (text = Undefined \<or> text = Str [])) \<and>
         (text \<noteq> Undefined \<and> text \<noteq> Str [] \<longrightarrow>
            (\<exists>a. analyzeSentiment env text = Inr a \<and>
                 post_analyze env text = Inr (Response 200 (Analysis a)))) \<and>
         (text = Undefined \<or> text = Str [] \<longrightarrow>
            (\<forall>scorer. analyze_route scorer text =
               Inr (Response 400 (Message ''Text is required''))))"
proof (cases "text")
  case Undefined
  then show ?thesis by (simp add: post_analyze_def analyze_route_def)
next
  case (Str s)
  show ?thesis
  proof (cases "s = []")
    case True
    with Str show ?thesis by (simp add: post_analyze_def analyze_route_def)
  next
    case False
    with Str show ?thesis
      by (simp add: post_analyze_Str analyzeSentiment_Str del: analyzeSentiment.simps)
  qed
qed (use assms in simp_all)

theorem post_analyze_text_required_witness:
  "post_analyze sampleCollaborators Undefined = Inr (Response 400 (Message ''Text is required'')) \<and>
   post_analyze sampleCollaborators (Str []) = Inr (Response 400 (Message ''Text is required'')) \<and>
   analyzeSentiment sampleCollaborators (Str ''I love it'') =
     Inr \<lparr>score = Fin (7/2), mood = ''Happy''\<rparr> \<and>
   post_analyze sampleCollaborators (Str ''I love it'') =
     Inr (Response 200 (Analysis \<lparr>score = Fin (7/2), mood = ''Happy''\<rparr>))"
  using post_analyze_text_required [of Undefined sampleCollaborators]
        post_analyze_text_required [of "Str []" sampleCollaborators]
        post_analyze_text_required [of "Str ''I love it''" sampleCollaborators]
        sample_love
  by simp

subsection \<open>Entries of another user\<close>

lemma sample_db: "[''e1'' \<mapsto> sampleEntry] ''e1'' = Some sampleEntry"
  by simp

lemma sample_foreign: "e_user sampleEntry \<noteq> ''u2''"
  by (simp add: sampleEntry_def)

lemma sample_owner: "e_user sampleEntry = ''u1''"
  by (simp add: sampleEntry_def)

text \<open>
  C9. When the entry exists and its user is not the requester, each of \<open>GET\<close>,
  \<open>PUT\<close> and \<open>DELETE\<close> on \<open>/api/journal/:id\<close> answers 403 with the message
  ``Not authorized'' (so not with the entry) and leaves the collection as it was.
\<close>

theorem foreign_entry_not_authorized:
  assumes "db eid = Some entry" and "e_user entry \<noteq> uid"
  shows "get_journal uid eid db = (Response 403 (Message ''Not authorized''), db) \<and>
         put_journal lib now uid eid body db = (Response 403 (Message ''Not authorized''), db) \<and>
         delete_journal uid eid db = (Response 403 (Message ''Not authorized''), db)"
  using assms by (simp add: get_journal_def put_journal_def delete_journal_def)

theorem foreign_entry_not_authorized_witness:
  "[''e1'' \<mapsto> sampleEntry] ''e1'' = Some sampleEntry \<and> e_user sampleEntry \<noteq> ''u2'' \<and>
   get_journal ''u2'' ''e1'' [''e1'' \<mapsto> sampleEntry] =
     (Response 403 (Message ''Not authorized''), [''e1'' \<mapsto> sampleEntry]) \<and>
   put_journal typedCasts 2000 ''u2'' ''e1'' zeroScoreBody [''e1'' \<mapsto> sampleEntry] =
     (Response 403 (Message ''Not authorized''), [''e1'' \<mapsto> sampleEntry]) \<and>
   delete_journal ''u2'' ''e1'' [''e1'' \<mapsto> sampleEntry] =
     (Response 403 (Message ''Not authorized''), [''e1'' \<mapsto> sampleEntry])"
  using foreign_entry_not_authorized [where db = "[''e1'' \<mapsto> sampleEntry]" and eid = "''e1''"
          and entry = sampleEntry and uid = "''u2''" and now = 2000 and body = zeroScoreBody
          and lib = typedCasts]
        sample_db sample_foreign
  by simp

subsection \<open>Updating an entry\<close>

lemma those_asString_Str: "those (map asString (map Str l)) = Some l"
  by (induction l) simp_all

lemma asStrings_Str: "asStrings (Arr (map Str l)) = Some l"
  by (simp add: those_asString_Str del: map_map)

lemma typedCasts_simps:
  "castString typedCasts (Str s) = Some s"
  "castNumber typedCasts (Num n) = Some n"
  "castStrings typedCasts (Arr (map Str l)) = Some l"
  by (simp_all add: typedCasts_def asStrings_Str del: asStrings.simps)

text \<open>One member of \<open>tags\<close>: the list it leaves, and when the cast accepts it.\<close>

lemma tag_member:
  assumes "castStrings lib (Arr (map Str old)) = Some old"
  shows "(\<not> truthy v \<longrightarrow> castStrings lib (js_or v (Arr (map Str old))) = Some old) \<and>
         (castStrings lib (js_or v (Arr (map Str old))) \<noteq> None \<longleftrightarrow>
            \<not> truthy v \<or> castStrings lib v \<noteq> None)"
  using assms by (simp add: js_or_def)

lemma assignTags_frame:
  assumes "assignTags lib g old = Some g'"
    and "castStrings lib (Arr (map Str (emotions old))) = Some (emotions old)"
    and "castStrings lib (Arr (map Str (people old))) = Some (people old)"
    and "castStrings lib (Arr (map Str (activities old))) = Some (activities old)"
  shows "(\<not> truthy g \<longrightarrow> g' = old) \<and>
         (\<not> truthy (getProp g ''emotions'') \<longrightarrow> emotions g' = emotions old) \<and>
         (\<not> truthy (getProp g ''people'') \<longrightarrow> people g' = people old) \<and>
         (\<not> truthy (getProp g ''activities'') \<longrightarrow> activities g' = activities old)"
proof (cases "truthy g")
  case False
  with assms(1) show ?thesis by (simp add: assignTags_def)
next
  case True
  with assms(1) show ?thesis
    using tag_member [OF assms(2), of "getProp g ''emotions''"]
          tag_member [OF assms(3), of "getProp g ''people''"]
          tag_member [OF assms(4), of "getProp g ''activities''"]
    by (auto simp: assignTags_def split: Option.bind_splits)
qed

lemma assignTags_accepts:
  assumes "castStrings lib (Arr (map Str (emotions old))) = Some (emotions old)"
    and "castStrings lib (Arr (map Str (people old))) = Some (people old)"
    and "castStrings lib (Arr (map Str (activities old))) = Some (activities old)"
  shows "assignTags lib g old \<noteq> None \<longleftrightarrow>
         (\<not> truthy g \<or> (tagSaveable lib g ''emotions'' \<and> tagSaveable lib g ''people'' \<and>
             tagSaveable lib g ''activities''))"
proof (cases "truthy g")
  case False
  then show ?thesis by (simp add: assignTags_def)
next
  case True
  have e: "castStrings lib (js_or (getProp g ''emotions'') (Arr (map Str (emotions old)))) \<noteq> None
      \<longleftrightarrow> tagSaveable lib g ''emotions''"
    using tag_member [OF assms(1), of "getProp g ''emotions''"] by (simp only: tagSaveable_def)
  have p: "castStrings lib (js_or (getProp g ''people'') (Arr (map Str (people old)))) \<noteq> None
      \<longleftrightarrow> tagSaveable lib g ''people''"
    using tag_member [OF assms(2), of "getProp g ''people''"] by (simp only: tagSaveable_def)
  have a: "castStrings lib (js_or (getProp g ''activities'') (Arr (map Str (activities old)))) \<noteq> None
      \<longleftrightarrow> tagSaveable lib g ''activities''"
    using tag_member [OF assms(3), of "getProp g ''activities''"] by (simp only: tagSaveable_def)
  have "assignTags lib g old \<noteq> None \<longleftrightarrow>
      castStrings lib (js_or (getProp g ''emotions'') (Arr (map Str (emotions old)))) \<noteq> None \<and>
      castStrings lib (js_or (getProp g ''people'') (Arr (map Str (people old)))) \<noteq> None \<and>
      castStrings lib (js_or (getProp g ''activities'') (Arr (map Str (activities old)))) \<noteq> None"
    using True by (simp add: assignTags_def Option.bind_eq_None_conv)
  then show ?thesis using True by (simp only: e p a) simp
qed

text \<open>A String path that is set to \<open>v || old\<close>.\<close>

lemma string_member:
  assumes "castString lib (Str old) = Some old"
  shows "(\<not> truthy v \<longrightarrow> castString lib (js_or v (Str old)) = Some old) \<and>
         (truthy v \<longrightarrow> castString lib (js_or v (Str old)) = castString lib v)"
  using assms by (simp add: js_or_def)

lemma assignFields_Some:
  "assignFields lib body entry = Some ch \<longleftrightarrow>
    (\<exists>t c s m g.
       castString lib (js_or (b_title body) (Str (e_title entry))) = Some t \<and>
       castString lib (js_or (b_content body) (Str (e_content entry))) = Some c \<and>
       castNumber lib (if b_sentimentScore body \<noteq> Undefined then b_sentimentScore body
                       else Num (e_sentimentScore entry)) = Some s \<and>
       castString lib (js_or (b_mood body) (Str (e_mood entry))) = Some m \<and>
       assignTags lib (b_tags body) (e_tags entry) = Some g \<and>
       ch = entry\<lparr>e_title := trim t, e_content := c, e_sentimentScore := s, e_mood := m,
                  e_tags := g\<rparr>)"
  unfolding assignFields_def Option.bind_eq_Some_conv by (simp only: option.inject) blast

lemma assignFields_frame:
  assumes "assignFields lib body entry = Some ch" and "storedBySchema lib entry"
  shows "e_user ch = e_user entry \<and> e_createdAt ch = e_createdAt entry \<and>
         e_updatedAt ch = e_updatedAt entry \<and>
         (\<not> truthy (b_title body) \<longrightarrow> e_title ch = e_title entry) \<and>
         (\<not> truthy (b_content body) \<longrightarrow> e_content ch = e_content entry) \<and>
         (\<not> truthy (b_mood body) \<longrightarrow> e_mood ch = e_mood entry) \<and>
         (b_sentimentScore body = Undefined \<longrightarrow> e_sentimentScore ch = e_sentimentScore entry) \<and>
         (b_sentimentScore body \<noteq> Undefined \<longrightarrow>
            castNumber lib (b_sentimentScore body) = Some (e_sentimentScore ch)) \<and>
         assignTags lib (b_tags body) (e_tags entry) = Some (e_tags ch)"
proof -
  from assms(1) obtain t c s m g where
    t: "castString lib (js_or (b_title body) (Str (e_title entry))) = Some t" and
    c: "castString lib (js_or (b_content body) (Str (e_content entry))) = Some c" and
    s: "castNumber lib (if b_sentimentScore body \<noteq> Undefined then b_sentimentScore body
                       else Num (e_sentimentScore entry)) = Some s" and
    m: "castString lib (js_or (b_mood body) (Str (e_mood entry))) = Some m" and
    g: "assignTags lib (b_tags body) (e_tags entry) = Some g" and
    ch: "ch = entry\<lparr>e_title := trim t, e_content := c, e_sentimentScore := s, e_mood := m,
                  e_tags := g\<rparr>"
    unfolding assignFields_Some by blast
  from assms(2) have k: "castString lib (Str (e_title entry)) = Some (e_title entry)"
    "castString lib (Str (e_content entry)) = Some (e_content entry)"
    "castString lib (Str (e_mood entry)) = Some (e_mood entry)"
    "castNumber lib (Num (e_sentimentScore entry)) = Some (e_sentimentScore entry)"
    "trim (e_title entry) = e_title entry"
    by (simp_all add: storedBySchema_def)
  have "\<not> truthy (b_title body) \<longrightarrow> trim t = e_title entry"
    using string_member [OF k(1), of "b_title body"] t k(5) by auto
  moreover have "\<not> truthy (b_content body) \<longrightarrow> c = e_content entry"
    using string_member [OF k(2), of "b_content body"] c by auto
  moreover have "\<not> truthy (b_mood body) \<longrightarrow> m = e_mood entry"
    using string_member [OF k(3), of "b_mood body"] m by auto
  moreover have "b_sentimentScore body = Undefined \<longrightarrow> s = e_sentimentScore entry"
    using s k(4) by auto
  moreover have "b_sentimentScore body \<noteq> Undefined \<longrightarrow>
      castNumber lib (b_sentimentScore body) = Some s"
    using s by auto
  ultimately show ?thesis using ch g by simp
qed

text \<open>The save accepts the changed document exactly for the bodies of \<open>saveable\<close>.\<close>

lemma assignFields_accepts:
  assumes "storedBySchema lib entry"
  shows "(\<exists>ch. assignFields lib body entry = Some ch \<and> validate ch) \<longleftrightarrow> saveable lib body"
proof -
  from assms have k: "castString lib (Str (e_title entry)) = Some (e_title entry)"
    "castString lib (Str (e_content entry)) = Some (e_content entry)"
    "castString lib (Str (e_mood entry)) = Some (e_mood entry)"
    "castNumber lib (Num (e_sentimentScore entry)) = Some (e_sentimentScore entry)"
    "trim (e_title entry) = e_title entry"
    and v: "e_title entry \<noteq> []" "e_content entry \<noteq> []" "e_mood entry \<noteq> []"
    and l: "castStrings lib (Arr (map Str (emotions (e_tags entry)))) = Some (emotions (e_tags entry))"
      "castStrings lib (Arr (map Str (people (e_tags entry)))) = Some (people (e_tags entry))"
      "castStrings lib (Arr (map Str (activities (e_tags entry)))) =
         Some (activities (e_tags entry))"
    by (simp_all add: storedBySchema_def validate_def)
  note ta = assignTags_accepts [OF l, of "b_tags body"]
  note st = string_member [OF k(1), of "b_title body"]
  note sc = string_member [OF k(2), of "b_content body"]
  note sm = string_member [OF k(3), of "b_mood body"]
  have title: "(\<exists>t. castString lib (js_or (b_title body) (Str (e_title entry))) = Some t \<and>
        trim t \<noteq> []) \<longleftrightarrow>
      (\<not> truthy (b_title body) \<or>
        (case castString lib (b_title body) of None \<Rightarrow> False | Some s \<Rightarrow> trim s \<noteq> []))"
    using st k(5) v(1) by (cases "truthy (b_title body)") (auto split: option.splits)
  have content: "(\<exists>c. castString lib (js_or (b_content body) (Str (e_content entry))) = Some c \<and>
        c \<noteq> []) \<longleftrightarrow>
      (\<not> truthy (b_content body) \<or>
        (case castString lib (b_content body) of None \<Rightarrow> False | Some s \<Rightarrow> s \<noteq> []))"
    using sc v(2) by (cases "truthy (b_content body)") (auto split: option.splits)
  have mood: "(\<exists>m. castString lib (js_or (b_mood body) (Str (e_mood entry))) = Some m \<and>
        m \<noteq> []) \<longleftrightarrow>
      (\<not> truthy (b_mood body) \<or>
        (case castString lib (b_mood body) of None \<Rightarrow> False | Some s \<Rightarrow> s \<noteq> []))"
    using sm v(3) by (cases "truthy (b_mood body)") (auto split: option.splits)
  have number: "(\<exists>s. castNumber lib (if b_sentimentScore body \<noteq> Undefined
        then b_sentimentScore body else Num (e_sentimentScore entry)) = Some s) \<longleftrightarrow>
      (b_sentimentScore body = Undefined \<or> castNumber lib (b_sentimentScore body) \<noteq> None)"
    using k(4) by auto
  have tags: "(\<exists>g. assignTags lib (b_tags body) (e_tags entry) = Some g) \<longleftrightarrow>
      (\<not> truthy (b_tags body) \<or>
        (tagSaveable lib (b_tags body) ''emotions'' \<and> tagSaveable lib (b_tags body) ''people'' \<and>
         tagSaveable lib (b_tags body) ''activities''))"
    using ta by auto
  have "(\<exists>ch. assignFields lib body entry = Some ch \<and> validate ch) \<longleftrightarrow>
      (\<exists>t. castString lib (js_or (b_title body) (Str (e_title entry))) = Some t \<and>
        trim t \<noteq> []) \<and>
      (\<exists>c. castString lib (js_or (b_content body) (Str (e_content entry))) = Some c \<and>
        c \<noteq> []) \<and>
      (\<exists>s. castNumber lib (if b_sentimentScore body \<noteq> Undefined
        then b_sentimentScore body else Num (e_sentimentScore entry)) = Some s) \<and>
      (\<exists>m. castString lib (js_or (b_mood body) (Str (e_mood entry))) = Some m \<and>
        m \<noteq> []) \<and>
      (\<exists>g. assignTags lib (b_tags body) (e_tags entry) = Some g)"
    unfolding assignFields_Some by (auto simp: validate_def)
  then show ?thesis
    unfolding title content mood number tags saveable_def by simp
qed

lemma put_journal_owned:
  assumes "db eid = Some entry" and "e_user entry = uid"
  shows "put_journal lib now uid eid body db =
    (case assignFields lib body entry of
       None \<Rightarrow> (Response 500 (Message ''Server error''), db)
     | Some ch \<Rightarrow>
         if validate ch
         then (Response 200 (Entry (ch\<lparr>e_updatedAt := now\<rparr>)), db(eid \<mapsto> ch\<lparr>e_updatedAt := now\<rparr>))
         else (Response 500 (Message ''Server error''), db))"
  using assms by (simp add: put_journal_def save_def validate_def Let_def split: option.splits)

lemma trim_Nil: "trim [] = []"
  by (simp add: trim_def)

lemma trim_Day: "trim ''Day'' = ''Day''"
  by code_simp

lemma trim_blank: "trim ''   '' = []"
  by code_simp

text \<open>A title of U+00A0 alone, or of U+3000 and a line feed, is blank.\<close>

lemma trim_nbsp:
  "trim (map char_of [194, 160 :: nat]) = [] \<and>
   trim (map char_of [227, 128, 128, 10 :: nat]) = []"
  by code_simp

lemma sample_stored: "storedBySchema typedCasts sampleEntry"
  by (simp add: storedBySchema_def validate_def sampleEntry_def trim_Day typedCasts_def)

lemma zeroScoreBody_saveable: "saveable typedCasts zeroScoreBody"
  by (simp add: saveable_def zeroScoreBody_def tagSaveable_def typedCasts_def)

lemma blankTitleBody_not_saveable: "\<not> saveable typedCasts blankTitleBody"
  by (simp add: saveable_def blankTitleBody_def typedCasts_def trim_blank)

lemma assignFields_empty: "assignFields typedCasts emptyBody sampleEntry = Some sampleEntry"
  by (simp add: assignFields_def emptyBody_def js_or_def assignTags_def sampleEntry_def trim_Day
                typedCasts_simps)

text \<open>A \<open>sentimentScore\<close> that is present as \<open>null\<close> is set to the path, and the save
  rejects the document (the path is \<open>required\<close>): the answer is 500 and nothing is
  stored.\<close>

lemma put_journal_null_score:
  assumes "db eid = Some entry" and "e_user entry = uid" and "b_sentimentScore body = Null"
    and "castNumber lib Null = None"
  shows "put_journal lib now uid eid body db = (Response 500 (Message ''Server error''), db)"
proof -
  have "assignFields lib body entry = None"
    by (simp add: assignFields_def assms(3,4) split: Option.bind_splits)
  then show ?thesis
    by (simp add: put_journal_owned [where db = db and eid = eid, OF assms(1,2)])
qed

text \<open>
  C10, as the claim states it, fails twice. After a \<open>PUT\<close> with an empty body on an
  owned entry, \<open>updatedAt\<close>, which the body does not mention, no longer has its previous
  value. And a \<open>PUT\<close> whose body has the \<open>sentimentScore\<close> 0 next to a blank title is
  answered with 500 and leaves the entry, its score of 3.5 too, as it was.
\<close>

theorem put_journal_touches_updatedAt:
  "put_journal typedCasts 2000 ''u1'' ''e1'' emptyBody [''e1'' \<mapsto> sampleEntry] =
     (Response 200 (Entry (sampleEntry\<lparr>e_updatedAt := 2000\<rparr>)),
      [''e1'' \<mapsto> sampleEntry\<lparr>e_updatedAt := 2000\<rparr>]) \<and>
   e_updatedAt sampleEntry = 1000 \<and>
   e_updatedAt (sampleEntry\<lparr>e_updatedAt := 2000\<rparr>) \<noteq> e_updatedAt sampleEntry \<and>
   b_sentimentScore blankTitleBody = Num (Fin 0) \<and>
   put_journal typedCasts 2000 ''u1'' ''e1'' blankTitleBody [''e1'' \<mapsto> sampleEntry] =
     (Response 500 (Message ''Server error''), [''e1'' \<mapsto> sampleEntry]) \<and>
   e_sentimentScore sampleEntry = Fin (7/2)"
proof -
  have v: "validate sampleEntry" using sample_stored by (simp add: storedBySchema_def)
  note po = put_journal_owned [where db = "[''e1'' \<mapsto> sampleEntry]" and eid = "''e1''",
            OF sample_db sample_owner]
  have one: "put_journal typedCasts 2000 ''u1'' ''e1'' emptyBody [''e1'' \<mapsto> sampleEntry] =
     (Response 200 (Entry (sampleEntry\<lparr>e_updatedAt := 2000\<rparr>)),
      [''e1'' \<mapsto> sampleEntry\<lparr>e_updatedAt := 2000\<rparr>])"
    by (simp add: po assignFields_empty v)
  have "\<not> (\<exists>ch. assignFields typedCasts blankTitleBody sampleEntry = Some ch \<and> validate ch)"
    using assignFields_accepts [OF sample_stored, of blankTitleBody] blankTitleBody_not_saveable
    by simp
  then have two: "put_journal typedCasts 2000 ''u1'' ''e1'' blankTitleBody
      [''e1'' \<mapsto> sampleEntry] = (Response 500 (Message ''Server error''), [''e1'' \<mapsto> sampleEntry])"
    by (cases "assignFields typedCasts blankTitleBody sampleEntry") (simp_all add: po)
  show ?thesis
    by (simp only: one two) (simp add: sampleEntry_def blankTitleBody_def)
qed

text \<open>
  C10, amended. On \<open>PUT /api/journal/:id\<close> of an owned entry that is stored as its schema
  stores it, some entry \<open>e'\<close> stands under the id afterwards and no other id is touched.
  A falsy title, content or mood in the body leaves that field of the entry as it was; an
  absent \<open>sentimentScore\<close> leaves the score; falsy \<open>tags\<close> leave all three lists, and a
  falsy member of \<open>tags\<close> leaves its list; \<open>user\<close> and \<open>createdAt\<close> keep their
  values. The save succeeds exactly for the bodies of \<open>saveable\<close>: then the answer is
  200 with \<open>e'\<close>, a \<open>sentimentScore\<close> that is present in the body, 0 too, is replaced
  by the number that the schema casts it to, and \<open>updatedAt\<close> is the time of the save.
  For every other body the answer is 500 and the entry is as it was.
\<close>

theorem put_journal_frame:
  assumes "db eid = Some entry" and "e_user entry = uid" and "storedBySchema lib entry"
  shows "\<exists>e'. snd (put_journal lib now uid eid body db) = db(eid \<mapsto> e') \<and>
           (\<not> truthy (b_title body) \<longrightarrow> e_title e' = e_title entry) \<and>
           (\<not> truthy (b_content body) \<longrightarrow> e_content e' = e_content entry) \<and>
           (\<not> truthy (b_mood body) \<longrightarrow> e_mood e' = e_mood entry) \<and>
           (b_sentimentScore body = Undefined \<longrightarrow> e_sentimentScore e' = e_sentimentScore entry) \<and>
           (\<not> truthy (b_tags body) \<longrightarrow> e_tags e' = e_tags entry) \<and>
           (\<not> truthy (getProp (b_tags body) ''emotions'') \<longrightarrow>
              emotions (e_tags e') = emotions (e_tags entry)) \<and>
           (\<not> truthy (getProp (b_tags body) ''people'') \<longrightarrow>
              people (e_tags e') = people (e_tags entry)) \<and>
           (\<not> truthy (getProp (b_tags body) ''activities'') \<longrightarrow>
              activities (e_tags e') = activities (e_tags entry)) \<and>
           e_user e' = e_user entry \<and> e_createdAt e' = e_createdAt entry \<and>
           (saveable lib body \<longrightarrow>
              fst (put_journal lib now uid eid body db) = Response 200 (Entry e') \<and>
              (b_sentimentScore body \<noteq> Undefined \<longrightarrow>
                 castNumber lib (b_sentimentScore body) = Some (e_sentimentScore e')) \<and>
              e_updatedAt e' = now) \<and>
           (\<not> saveable lib body \<longrightarrow>
              fst (put_journal lib now uid eid body db) =
                Response 500 (Message ''Server error'') \<and>
              e' = entry)"
proof (cases "saveable lib body")
  note po = put_journal_owned [where db = db and eid = eid, OF assms(1,2)]
  case True
  with assignFields_accepts [OF assms(3), of body]
  obtain ch where ch: "assignFields lib body entry = Some ch" and v: "validate ch" by blast
  have put: "put_journal lib now uid eid body db =
      (Response 200 (Entry (ch\<lparr>e_updatedAt := now\<rparr>)), db(eid \<mapsto> ch\<lparr>e_updatedAt := now\<rparr>))"
    by (simp add: po ch v)
  note f = assignFields_frame [OF ch assms(3)]
  from f have g: "assignTags lib (b_tags body) (e_tags entry) = Some (e_tags ch)" by blast
  from assms(3) have l:
    "castStrings lib (Arr (map Str (emotions (e_tags entry)))) = Some (emotions (e_tags entry))"
    "castStrings lib (Arr (map Str (people (e_tags entry)))) = Some (people (e_tags entry))"
    "castStrings lib (Arr (map Str (activities (e_tags entry)))) =
       Some (activities (e_tags entry))"
    by (simp_all add: storedBySchema_def)
  note tg = assignTags_frame [OF g l]
  show ?thesis
    apply (rule exI [of _ "ch\<lparr>e_updatedAt := now\<rparr>"])
    using f tg True by (simp add: put)
next
  note po = put_journal_owned [where db = db and eid = eid, OF assms(1,2)]
  case False
  with assignFields_accepts [OF assms(3), of body]
  have "\<not> (\<exists>ch. assignFields lib body entry = Some ch \<and> validate ch)" by simp
  then have put: "put_journal lib now uid eid body db =
      (Response 500 (Message ''Server error''), db)"
    by (cases "assignFields lib body entry") (simp_all add: po)
  have "db = db(eid \<mapsto> entry)" using assms(1) by (simp add: fun_upd_idem)
  then show ?thesis
    apply -
    apply (rule exI [of _ entry])
    using False by (simp add: put)
qed

theorem put_journal_frame_witness:
  "[''e1'' \<mapsto> sampleEntry] ''e1'' = Some sampleEntry \<and> e_user sampleEntry = ''u1'' \<and>
   storedBySchema typedCasts sampleEntry \<and> saveable typedCasts zeroScoreBody \<and>
   b_sentimentScore zeroScoreBody = Num (Fin 0) \<and>
   (\<exists>e'. snd (put_journal typedCasts 2000 ''u1'' ''e1'' zeroScoreBody [''e1'' \<mapsto> sampleEntry]) =
            [''e1'' \<mapsto> e'] \<and>
          fst (put_journal typedCasts 2000 ''u1'' ''e1'' zeroScoreBody [''e1'' \<mapsto> sampleEntry]) =
            Response 200 (Entry e') \<and>
          e_title e' = ''Day'' \<and> e_content e' = ''I love it'' \<and> e_mood e' = ''Happy'' \<and>
          e_sentimentScore e' = Fin 0 \<and> emotions (e_tags e') = [''joy''] \<and>
          activities (e_tags e') = [] \<and> e_user e' = ''u1'' \<and> e_createdAt e' = 1000 \<and>
          e_updatedAt e' = 2000)"
proof -
  let ?put = "put_journal typedCasts 2000 ''u1'' ''e1'' zeroScoreBody [''e1'' \<mapsto> sampleEntry]"
  have "\<exists>e'. snd ?put = [''e1'' \<mapsto> e'] \<and> e_title e' = ''Day'' \<and>
          e_content e' = ''I love it'' \<and> e_mood e' = ''Happy'' \<and>
          emotions (e_tags e') = [''joy''] \<and> activities (e_tags e') = [] \<and>
          e_user e' = ''u1'' \<and> e_createdAt e' = 1000 \<and>
          fst ?put = Response 200 (Entry e') \<and> Fin 0 = e_sentimentScore e' \<and>
          e_updatedAt e' = 2000"
    using put_journal_frame [where db = "[''e1'' \<mapsto> sampleEntry]" and eid = "''e1''"
            and entry = sampleEntry and uid = "''u1''" and now = 2000 and body = zeroScoreBody
            and lib = typedCasts, OF sample_db sample_owner sample_stored]
          zeroScoreBody_saveable
    by (simp add: zeroScoreBody_def sampleEntry_def typedCasts_simps)
  then obtain e' where "snd ?put = [''e1'' \<mapsto> e']" "e_title e' = ''Day''"
      "e_content e' = ''I love it''" "e_mood e' = ''Happy''" "emotions (e_tags e') = [''joy'']"
      "activities (e_tags e') = []" "e_user e' = ''u1''" "e_createdAt e' = 1000"
      "fst ?put = Response 200 (Entry e')" "e_sentimentScore e' = Fin 0" "e_updatedAt e' = 2000"
    by auto
  then have "\<exists>e'. snd ?put = [''e1'' \<mapsto> e'] \<and> fst ?put = Response 200 (Entry e') \<and>
          e_title e' = ''Day'' \<and> e_content e' = ''I love it'' \<and> e_mood e' = ''Happy'' \<and>
          e_sentimentScore e' = Fin 0 \<and> emotions (e_tags e') = [''joy''] \<and>
          activities (e_tags e') = [] \<and> e_user e' = ''u1'' \<and> e_createdAt e' = 1000 \<and>
          e_updatedAt e' = 2000"
    by blast
  moreover have "b_sentimentScore zeroScoreBody = Num (Fin 0)" by (simp add: zeroScoreBody_def)
  ultimately show ?thesis
    using sample_db sample_owner sample_stored zeroScoreBody_saveable by blast
qed

subsection \<open>Creating an entry\<close>

text \<open>The create route stores a truthy score and a truthy mood of the body as they are,
  and 0 and Neutral in the place of falsy ones, when the casts keep what is typed
  already.\<close>

lemma post_journal_stored:
  assumes "b_title body = Str t" and "trim t \<noteq> []" and "b_content body = Str c" and "c \<noteq> []"
    and "b_sentimentScore body = v" and "v = Null \<or> v = Num n"
    and "b_mood body = w" and "w = Null \<or> w = Str m"
    and "b_tags body = Obj [(''emotions'', Arr (map Str es)), (''people'', Arr (map Str ps)),
                           (''activities'', Arr (map Str as))]"
    and "\<And>s. castString lib (Str s) = Some s" and "\<And>k. castNumber lib (Num k) = Some k"
    and "\<And>l. castStrings lib (Arr (map Str l)) = Some l"
  shows "post_journal lib created now newId uid body db =
    (Response 201 (Entry
       \<lparr>e_user = uid, e_title = trim t, e_content = c,
        e_sentimentScore = (if truthy v then n else Fin 0),
        e_mood = (if truthy w then m else ''Neutral''),
        e_tags = \<lparr>emotions = es, people = ps, activities = as\<rparr>,
        e_createdAt = created, e_updatedAt = now\<rparr>),
     db(newId \<mapsto>
       \<lparr>e_user = uid, e_title = trim t, e_content = c,
        e_sentimentScore = (if truthy v then n else Fin 0),
        e_mood = (if truthy w then m else ''Neutral''),
        e_tags = \<lparr>emotions = es, people = ps, activities = as\<rparr>,
        e_createdAt = created, e_updatedAt = now\<rparr>))"
proof -
  from assms(2) have t: "t \<noteq> []" by (auto simp: trim_Nil)
  have s: "castNumber lib (js_or v (Num (Fin 0))) = Some (if truthy v then n else Fin 0)"
    using assms(6) by (auto simp: js_or_def assms(11))
  have m: "castString lib (js_or w (Str ''Neutral'')) = Some (if truthy w then m else ''Neutral'')"
    using assms(8) by (auto simp: js_or_def assms(10))
  have g: "castStrings lib (js_or (optChain (b_tags body) ''emotions'') (Arr [])) = Some es"
    "castStrings lib (js_or (optChain (b_tags body) ''people'') (Arr [])) = Some ps"
    "castStrings lib (js_or (optChain (b_tags body) ''activities'') (Arr [])) = Some as"
    by (simp_all add: assms(9) js_or_def assms(12))
  have n: "newJournalEntry lib created uid body = Some
       \<lparr>e_user = uid, e_title = trim t, e_content = c,
        e_sentimentScore = (if truthy v then n else Fin 0),
        e_mood = (if truthy w then m else ''Neutral''),
        e_tags = \<lparr>emotions = es, people = ps, activities = as\<rparr>,
        e_createdAt = created, e_updatedAt = created\<rparr>"
    unfolding newJournalEntry_def
    using s m by (simp only: g assms(1,3,5,7) assms(10) bind.bind_lunit)
  have mm: "(if truthy w then m else ''Neutral'') \<noteq> []"
    using assms(8) by auto
  show ?thesis
    using t assms(2,4) mm
    by (simp add: post_journal_def n save_def validate_def assms(1,3) Let_def)
qed

lemma analyzeLast_ok:
  assumes "f_content (formData p) \<noteq> []"
  shows "\<exists>a. analyzeSentiment env (Str (f_content (formData p))) = Inr a \<and>
             analyzeLast env p =
               Inr (p\<lparr>st_sentimentScore := viaJSON (Num (score a)), st_mood := Str (mood a)\<rparr>)"
  using assms
  by (simp add: analyzeLast_def post_analyze_def analyze_route_def analyzeSentiment_Str
           del: analyzeSentiment.simps)

text \<open>Submitting a new entry before any analysis has been stored.\<close>

lemma handleSubmit_unscored:
  assumes "trim (f_title (formData p)) \<noteq> []" and "trim (f_content (formData p)) \<noteq> []"
    and "st_sentimentScore p = Null" and "st_mood p = Null" and "st_id p = None"
    and "analyzeSentiment env (Str (f_content (formData p))) = Inr a"
    and "\<And>s. castString lib (Str s) = Some s" and "\<And>k. castNumber lib (Num k) = Some k"
    and "\<And>l. castStrings lib (Arr (map Str l)) = Some l"
  shows "handleSubmit lib env created now newId uid p db =
    (p\<lparr>st_sentimentScore := viaJSON (Num (score a)), st_mood := Str (mood a), st_error := []\<rparr>,
     db(newId \<mapsto>
       \<lparr>e_user = uid, e_title = trim (f_title (formData p)), e_content = f_content (formData p),
        e_sentimentScore = Fin 0, e_mood = ''Neutral'', e_tags = f_tags (formData p),
        e_createdAt = created, e_updatedAt = now\<rparr>))"
proof -
  from assms(2) have c: "f_content (formData p) \<noteq> []" by (auto simp: trim_Nil)
  from analyzeLast_ok [of "p\<lparr>st_error := []\<rparr>" env] c assms(6)
  have a: "analyzeLast env (p\<lparr>st_error := []\<rparr>) =
      Inr (p\<lparr>st_error := [], st_sentimentScore := viaJSON (Num (score a)), st_mood := Str (mood a)\<rparr>)"
    by (simp del: analyzeSentiment.simps)
  have g: "\<lparr>emotions = emotions (f_tags (formData p)), people = people (f_tags (formData p)),
            activities = activities (f_tags (formData p))\<rparr> = f_tags (formData p)"
    by simp
  have pj: "post_journal lib created now newId uid (journalData p) db =
    (Response 201 (Entry
       \<lparr>e_user = uid, e_title = trim (f_title (formData p)), e_content = f_content (formData p),
        e_sentimentScore = (if truthy Null then Fin 0 else Fin 0),
        e_mood = (if truthy Null then [] else ''Neutral''),
        e_tags = \<lparr>emotions = emotions (f_tags (formData p)), people = people (f_tags (formData p)),
                  activities = activities (f_tags (formData p))\<rparr>,
        e_createdAt = created, e_updatedAt = now\<rparr>),
     db(newId \<mapsto>
       \<lparr>e_user = uid, e_title = trim (f_title (formData p)), e_content = f_content (formData p),
        e_sentimentScore = (if truthy Null then Fin 0 else Fin 0),
        e_mood = (if truthy Null then [] else ''Neutral''),
        e_tags = \<lparr>emotions = emotions (f_tags (formData p)), people = people (f_tags (formData p)),
                  activities = activities (f_tags (formData p))\<rparr>,
        e_createdAt = created, e_updatedAt = now\<rparr>))"
    by (rule post_journal_stored [where t = "f_title (formData p)" and c = "f_content (formData p)"
          and v = Null and w = Null])
       (simp_all add: journalData_def assms c)
  show ?thesis
    using assms(1-5) by (simp add: handleSubmit_def pj a g del: analyzeSentiment.simps)
qed

text \<open>
  C7 at a concrete page. A new entry with the content ``I love it'' is submitted before any
  analysis was stored. The scorer's output for the content is 3.5 and Happy (under the
  stand-in lexicon), and \<open>handleSubmit\<close> puts it into the state of the next render; the
  entry that the server persists has the score 0 and the mood Neutral.
\<close>

theorem handleSubmit_persists_stale_state:
  "analyzeSentiment sampleCollaborators (Str (f_content (formData samplePage))) =
     Inr \<lparr>score = Fin (7/2), mood = ''Happy''\<rparr> \<and>
   handleSubmit typedCasts sampleCollaborators 1000 1001 ''e1'' ''u1'' samplePage Map.empty =
     (samplePage\<lparr>st_sentimentScore := Num (Fin (7/2)), st_mood := Str ''Happy''\<rparr>,
      [''e1'' \<mapsto>
        \<lparr>e_user = ''u1'', e_title = ''Day'', e_content = ''I love it'',
         e_sentimentScore = Fin 0, e_mood = ''Neutral'',
         e_tags = \<lparr>emotions = [], people = [], activities = []\<rparr>,
         e_createdAt = 1000, e_updatedAt = 1001\<rparr>])"
proof -
  have t: "trim ''Day'' = ''Day''" "trim ''I love it'' = ''I love it''" by code_simp+
  have c: "f_content (formData samplePage) = ''I love it''" by (simp add: samplePage_def)
  have a: "analyzeSentiment sampleCollaborators (Str (f_content (formData samplePage))) =
     Inr \<lparr>score = Fin (7/2), mood = ''Happy''\<rparr>"
    unfolding c by (rule sample_love)
  have "handleSubmit typedCasts sampleCollaborators 1000 1001 ''e1'' ''u1'' samplePage Map.empty =
     (samplePage\<lparr>st_sentimentScore := viaJSON (Num (score \<lparr>score = Fin (7/2), mood = ''Happy''\<rparr>)),
                 st_mood := Str (mood \<lparr>score = Fin (7/2), mood = ''Happy''\<rparr>), st_error := []\<rparr>,
      Map.empty(''e1'' \<mapsto>
        \<lparr>e_user = ''u1'', e_title = trim (f_title (formData samplePage)),
         e_content = f_content (formData samplePage),
         e_sentimentScore = Fin 0, e_mood = ''Neutral'', e_tags = f_tags (formData samplePage),
         e_createdAt = 1000, e_updatedAt = 1001\<rparr>))"
    by (rule handleSubmit_unscored [OF _ _ _ _ _ a])
       (simp_all add: samplePage_def t typedCasts_simps)
  then show ?thesis using a by (simp add: samplePage_def t del: analyzeSentiment.simps)
qed

end
